theory Spec2Isabelle
  imports Complex_Main
begin

section \<open>The autonomous racer of ai.js (class AICar)\<close>

text \<open>
  Numbers are JavaScript doubles in the source; they are idealised here as reals, so
  rounding is not modelled. Lane indices are integers. A read of \<open>laneCenters\<close>
  outside the array gives \<open>undefined\<close> in JavaScript, and arithmetic on it gives
  NaN, every comparison with which is false: both are the value \<open>None\<close> of
  \<open>real option\<close>, the type of the field \<open>x\<close>.

  \<open>Math.random()\<close> is an explicit argument of every function that draws from it;
  its contract is a value in \<open>[0, 1)\<close>. The colour of a car is used by \<open>draw\<close>
  only and is left out, with \<open>draw\<close> itself.

  Object identity (\<open>p !== this\<close>) is an address of type \<open>ref\<close>: a roster of peers
  is a list of addresses, each with the fields the object has at that moment.
\<close>

subsection \<open>Data\<close>

datatype STATES = CRUISE | DODGE | ACCELERATE | OVERTAKE | BLOCK

type_synonym ref = nat

record AICar =
  laneCenters :: "real list"
  lane :: int
  pos_x :: "real option"
  pos_y :: real
  width :: real
  height :: real
  state :: STATES
  stateTimer :: real
  aggression :: real
  reactionTime :: real
  reactionTimer :: real
  targetLane :: int
  laneChangeCooldown :: real
  LANE_CHANGE_COOLDOWN :: real
  LATERAL_SPEED :: real
  lookAhead :: real
  rubberBandMult :: real
  playerBehind :: bool
  blockTimer :: real

text \<open>The player snapshot \<open>{x, y, lane}\<close> that game.js passes to \<open>update\<close>.\<close>

record player =
  player_x :: real
  player_y :: real
  player_lane :: int

text \<open>An obstacle: the fields of a traffic car that the scans read.\<close>

record obstacle =
  obs_x :: real
  obs_y :: real
  obs_width :: real

type_synonym roster = "(ref \<times> AICar) list"

subsection \<open>Array reads and comparisons with undefined\<close>

text \<open>\<open>laneCenters[l]\<close>: the entry, or undefined outside the array.\<close>

definition laneCenterAt :: "real list \<Rightarrow> int \<Rightarrow> real option" where
  "laneCenterAt cs l = (if 0 \<le> l \<and> l < int (length cs) then Some (cs ! nat l) else None)"

text \<open>\<open>Math.abs(a - b) < t\<close>, false when either side is undefined (the difference is NaN).\<close>

fun abs_diff_lt :: "real option \<Rightarrow> real option \<Rightarrow> real \<Rightarrow> bool" where
  "abs_diff_lt (Some a) (Some b) t = (\<bar>a - b\<bar> < t)"
| "abs_diff_lt _ _ t = False"

subsection \<open>Construction\<close>

text \<open>
  \<open>constructor(lane, y, laneCenters)\<close>; \<open>r_aggr\<close> and \<open>r_react\<close> are the two draws of
  \<open>Math.random()\<close> for the personality.
\<close>

definition new_AICar :: "int \<Rightarrow> real \<Rightarrow> real list \<Rightarrow> real \<Rightarrow> real \<Rightarrow> AICar" where
  "new_AICar lane0 y0 centers r_aggr r_react =
     \<lparr> laneCenters = centers,
       lane = lane0,
       pos_x = laneCenterAt centers lane0,
       pos_y = y0,
       width = 36,
       height = 62,
       state = CRUISE,
       stateTimer = 0,
       aggression = 0.4 + r_aggr * 0.55,
       reactionTime = r_react * 0.12,
       reactionTimer = 0,
       targetLane = lane0,
       laneChangeCooldown = 0,
       LANE_CHANGE_COOLDOWN = 0.75,
       LATERAL_SPEED = 650,
       lookAhead = 130,
       rubberBandMult = 1.0,
       playerBehind = False,
       blockTimer = 0 \<rparr>"

subsection \<open>Rubber band\<close>

text \<open>\<open>_respawnAbove(player)\<close>; \<open>r1\<close> is the draw for \<open>y\<close>, \<open>r2\<close> the draw for the lane.\<close>

definition respawnAbove :: "AICar \<Rightarrow> player \<Rightarrow> real \<Rightarrow> real \<Rightarrow> AICar" where
  "respawnAbove c p r1 r2 =
     (let newLn = \<lfloor>r2 * 3\<rfloor> in
      c\<lparr> pos_y := player_y p - 740 - r1 * 300,
         lane := newLn,
         targetLane := newLn,
         pos_x := laneCenterAt (laneCenters c) newLn,
         state := CRUISE,
         playerBehind := False \<rparr>)"

text \<open>\<open>_updateRubberBand(player, gameSpeed)\<close>, the rubber-band regulator.\<close>

definition updateRubberBand :: "AICar \<Rightarrow> player \<Rightarrow> real \<Rightarrow> real \<Rightarrow> real \<Rightarrow> AICar" where
  "updateRubberBand c p gameSpeed r1 r2 =
     (let delta = pos_y c - player_y p in
      if delta > 220 then c\<lparr> rubberBandMult := 0.82 \<rparr>
      else if delta < - 80 then (respawnAbove c p r1 r2)\<lparr> rubberBandMult := 1.0 \<rparr>
      else c\<lparr> rubberBandMult := 1.0 \<rparr>)"

subsection \<open>Scans\<close>

text \<open>\<open>_scanObstacle(obstacles)\<close>: the scan of the car's own position.\<close>

definition scanObstacle :: "AICar \<Rightarrow> obstacle list \<Rightarrow> bool" where
  "scanObstacle c obstacles =
     list_ex (\<lambda>ob.
        abs_diff_lt (Some (obs_x ob)) (pos_x c) (width c * 0.6 + obs_width ob * 0.4) \<and>
        obs_y ob > pos_y c - lookAhead c \<and>
        obs_y ob < pos_y c + height c) obstacles"

text \<open>\<open>_laneOccupied(l, peers)\<close>; \<open>this\<close> is the address of the car itself.\<close>

definition laneOccupied :: "ref \<Rightarrow> AICar \<Rightarrow> int \<Rightarrow> roster \<Rightarrow> bool" where
  "laneOccupied this c l peers =
     (let lx = laneCenterAt (laneCenters c) l in
      list_ex (\<lambda>(r, p).
        r \<noteq> this \<and>
        \<bar>pos_y p - pos_y c\<bar> < 80 \<and>
        (abs_diff_lt (pos_x p) lx 44 \<or> targetLane p = l)) peers)"

text \<open>The constant \<open>hasObstacle\<close> of the filter in \<open>_dodge\<close>: the scan of lane \<open>l\<close>.\<close>

definition hasObstacle :: "AICar \<Rightarrow> obstacle list \<Rightarrow> int \<Rightarrow> bool" where
  "hasObstacle c obstacles l =
     (let lx = laneCenterAt (laneCenters c) l in
      list_ex (\<lambda>ob.
        abs_diff_lt (Some (obs_x ob)) lx (width c * 0.5 + obs_width ob * 0.4) \<and>
        obs_y ob > pos_y c - lookAhead c \<and>
        obs_y ob < pos_y c + height c) obstacles)"

subsection \<open>Lane changes\<close>

text \<open>\<open>_changeLane(newLane)\<close>.\<close>

definition changeLane :: "AICar \<Rightarrow> int \<Rightarrow> AICar" where
  "changeLane c newLane =
     (if newLane < 0 \<or> newLane > 2 \<or> newLane = targetLane c then c
      else c\<lparr> targetLane := newLane, laneChangeCooldown := LANE_CHANGE_COOLDOWN c \<rparr>)"

text \<open>
  \<open>_dodge(obstacles, peers)\<close>. The sort of JavaScript is stable, as \<open>sort_key\<close> is; the
  key \<open>\<bar>a - lane\<bar>\<close> orders as the comparator \<open>\<bar>a - lane\<bar> - \<bar>b - lane\<bar>\<close> does.
\<close>

definition dodge :: "ref \<Rightarrow> AICar \<Rightarrow> obstacle list \<Rightarrow> roster \<Rightarrow> AICar" where
  "dodge this c obstacles peers =
     (if laneChangeCooldown c > 0 then c
      else
        let safeLanes =
              filter (\<lambda>l. \<not> hasObstacle c obstacles l \<and> \<not> laneOccupied this c l peers) [0, 1, 2]
        in case sort_key (\<lambda>a. \<bar>a - lane c\<bar>) safeLanes of
             [] \<Rightarrow> c
           | best # _ \<Rightarrow> changeLane c best)"

text \<open>\<open>_planOvertake(player, peers)\<close>; \<open>reduce\<close> without a start value folds from the head.\<close>

definition planOvertake :: "ref \<Rightarrow> AICar \<Rightarrow> player \<Rightarrow> roster \<Rightarrow> AICar" where
  "planOvertake this c p peers =
     (if laneChangeCooldown c > 0 then c
      else
        let freeLanes =
              filter (\<lambda>l. l \<noteq> player_lane p \<and> \<not> laneOccupied this c l peers) [0, 1, 2]
        in case freeLanes of
             [] \<Rightarrow> c
           | a0 # rest \<Rightarrow>
               changeLane c
                 (foldl (\<lambda>a b. if \<bar>a - lane c\<bar> < \<bar>b - lane c\<bar> then a else b) a0 rest))"

text \<open>\<open>_planBlock(player, peers)\<close>.\<close>

definition planBlock :: "ref \<Rightarrow> AICar \<Rightarrow> player \<Rightarrow> roster \<Rightarrow> AICar" where
  "planBlock this c p peers =
     (if laneChangeCooldown c > 0 then c
      else if \<not> laneOccupied this c (player_lane p) peers then changeLane c (player_lane p)
      else c)"

subsection \<open>The think cycle\<close>

text \<open>The tail of \<open>_think\<close>: the decay of the block timer and the default state.\<close>

definition thinkDefault :: "AICar \<Rightarrow> AICar" where
  "thinkDefault c =
     (let c1 = (if blockTimer c > 0
                then c\<lparr> blockTimer := blockTimer c - (reactionTime c + 0.001) \<rparr> else c)
      in if stateTimer c1 \<le> 0 then c1\<lparr> state := CRUISE \<rparr> else c1)"

text \<open>\<open>_think(player, obstacles, peers)\<close>.\<close>

definition think :: "ref \<Rightarrow> AICar \<Rightarrow> player \<Rightarrow> obstacle list \<Rightarrow> roster \<Rightarrow> AICar" where
  "think this c0 p obstacles peers =
     (let c = c0\<lparr> reactionTimer := reactionTime c0 \<rparr> in
      if scanObstacle c obstacles \<and> state c \<noteq> DODGE then
        dodge this (c\<lparr> state := DODGE, stateTimer := 1.2 \<rparr>) obstacles peers
      else
        let delta = pos_y c - player_y p in
        if delta < - 40 then c\<lparr> state := ACCELERATE, stateTimer := 0.6 \<rparr>
        else
          let vertDist = \<bar>pos_y c - player_y p\<bar> in
          if vertDist < 140 then
            if aggression c > 0.82 \<and> state c \<noteq> BLOCK \<and> blockTimer c \<le> 0 then
              planBlock this (c\<lparr> state := BLOCK, stateTimer := 1.4, blockTimer := 3.0 \<rparr>) p peers
            else if aggression c > 0.65 \<and> state c \<noteq> OVERTAKE then
              planOvertake this (c\<lparr> state := OVERTAKE, stateTimer := 1.0 \<rparr>) p peers
            else thinkDefault c
          else thinkDefault c)"

subsection \<open>Movement and the update of one frame\<close>

text \<open>\<open>_applyMovement(dt, gameSpeed)\<close>; \<open>Math.sign\<close> is \<open>sgn\<close>.\<close>

definition applyMovement :: "AICar \<Rightarrow> real \<Rightarrow> real \<Rightarrow> AICar" where
  "applyMovement c0 dt gameSpeed =
     (let vMult0 = rubberBandMult c0;
          vMult1 = (if state c0 = ACCELERATE then vMult0 * 1.18 else vMult0);
          vMult = (if state c0 = BLOCK then vMult1 * 1.05 else vMult1);
          relSpeed = gameSpeed * (vMult - 1.0);
          c = c0\<lparr> pos_y := pos_y c0 + relSpeed * dt \<rparr>;
          targetX = laneCenterAt (laneCenters c) (targetLane c);
          step = LATERAL_SPEED c * dt
      in case (targetX, pos_x c) of
           (Some tx, Some x0) \<Rightarrow>
             (let dx = tx - x0 in
              if \<bar>dx\<bar> \<le> step then c\<lparr> pos_x := targetX, lane := targetLane c \<rparr>
              else c\<lparr> pos_x := Some (x0 + sgn dx * step) \<rparr>)
         | _ \<Rightarrow> c\<lparr> pos_x := None \<rparr>)"

text \<open>The difficulty scaling at the head of \<open>update\<close>.\<close>

definition speedT :: "real \<Rightarrow> real" where
  "speedT gameSpeed = min ((gameSpeed - 200) / 400) 1"

definition difficultyScaling :: "AICar \<Rightarrow> real \<Rightarrow> AICar" where
  "difficultyScaling c gameSpeed =
     c\<lparr> lookAhead := 130 + speedT gameSpeed * 90,
        LANE_CHANGE_COOLDOWN := max 0.8 (1.5 - speedT gameSpeed * 0.5),
        reactionTime := max 0 (reactionTime c * (1 - speedT gameSpeed * 0.3)) \<rparr>"

text \<open>The two timers that \<open>update\<close> counts down before the regulator runs.\<close>

definition tickTimers :: "AICar \<Rightarrow> real \<Rightarrow> AICar" where
  "tickTimers c0 dt =
     (let c = c0\<lparr> stateTimer := stateTimer c0 - dt \<rparr> in
      if laneChangeCooldown c > 0 then c\<lparr> laneChangeCooldown := laneChangeCooldown c - dt \<rparr>
      else c)"

text \<open>The reaction gate of \<open>update\<close>.\<close>

definition reactionGate :: "ref \<Rightarrow> AICar \<Rightarrow> real \<Rightarrow> player \<Rightarrow> obstacle list \<Rightarrow> roster \<Rightarrow> AICar" where
  "reactionGate this c dt p obstacles peers =
     (if reactionTimer c > 0 then c\<lparr> reactionTimer := reactionTimer c - dt \<rparr>
      else think this c p obstacles peers)"

text \<open>\<open>update(dt, gameSpeed, player, obstacles, peers)\<close>, with the two draws of a respawn.\<close>

definition update ::
  "ref \<Rightarrow> AICar \<Rightarrow> real \<Rightarrow> real \<Rightarrow> player \<Rightarrow> obstacle list \<Rightarrow> roster \<Rightarrow> real \<Rightarrow> real \<Rightarrow> AICar" where
  "update this c dt gameSpeed p obstacles peers r1 r2 =
     applyMovement
       (reactionGate this
          (updateRubberBand (tickTimers (difficultyScaling c gameSpeed) dt) p gameSpeed r1 r2)
          dt p obstacles peers)
       dt gameSpeed"

text \<open>\<open>scroll(amount)\<close>.\<close>

definition scroll :: "AICar \<Rightarrow> real \<Rightarrow> AICar" where
  "scroll c amount = c\<lparr> pos_y := pos_y c + amount \<rparr>"

subsection \<open>Sequences of operations on one car\<close>

text \<open>
  What game.js and a test can do to a car after constructing it: a frame's \<open>update\<close>, a
  \<open>scroll\<close>, or a pass of the regulator alone. Each operation carries its arguments and
  the draws of \<open>Math.random()\<close> it may consume.
\<close>

datatype operation =
  Update real real player "obstacle list" roster real real
| Scroll real
| Regulate player real real real

fun apply_operation :: "ref \<Rightarrow> AICar \<Rightarrow> operation \<Rightarrow> AICar" where
  "apply_operation this c (Update dt gameSpeed p obstacles peers r1 r2) =
     update this c dt gameSpeed p obstacles peers r1 r2"
| "apply_operation this c (Scroll amount) = scroll c amount"
| "apply_operation this c (Regulate p gameSpeed r1 r2) = updateRubberBand c p gameSpeed r1 r2"

definition run :: "ref \<Rightarrow> AICar \<Rightarrow> operation list \<Rightarrow> AICar" where
  "run this c ops = foldl (apply_operation this) c ops"

text \<open>The contract of \<open>Math.random()\<close>: a value from 0 up to, not including, 1.\<close>

definition is_draw :: "real \<Rightarrow> bool" where
  "is_draw r = (0 \<le> r \<and> r < 1)"

fun draws_ok :: "operation \<Rightarrow> bool" where
  "draws_ok (Update dt gameSpeed p obstacles peers r1 r2) = (is_draw r1 \<and> is_draw r2)"
| "draws_ok (Scroll amount) = True"
| "draws_ok (Regulate p gameSpeed r1 r2) = (is_draw r1 \<and> is_draw r2)"

definition lane_index :: "int \<Rightarrow> bool" where
  "lane_index l = (l = 0 \<or> l = 1 \<or> l = 2)"

subsection \<open>The hazard scanner as the specification words it\<close>

text \<open>
  The specification's contract \<open>blocked(laneIndex, obstacles, selfAgent)\<close>: some obstacle
  is closer to the lane's centre than \<open>selfWidth * 0.5 + obstacleWidth * 0.4\<close> and its
  \<open>y\<close> lies in the closed interval from \<open>self.y - lookAhead\<close> to \<open>self.y + selfHeight\<close>.
  It is compared below with the two scans of the source.
\<close>

definition blocked_spec :: "AICar \<Rightarrow> obstacle list \<Rightarrow> int \<Rightarrow> bool" where
  "blocked_spec c obstacles l =
     list_ex (\<lambda>ob.
        abs_diff_lt (Some (obs_x ob)) (laneCenterAt (laneCenters c) l)
          (width c * 0.5 + obs_width ob * 0.4) \<and>
        pos_y c - lookAhead c \<le> obs_y ob \<and>
        obs_y ob \<le> pos_y c + height c) obstacles"

subsection \<open>Concrete inputs\<close>

text \<open>The lane layout of game.js, \<open>LANE_CENTERS\<close>.\<close>

definition LANE_CENTERS :: "real list" where
  "LANE_CENTERS = [80, 240, 400]"

text \<open>A car in the middle lane, level with a player who is in the left lane.\<close>

definition demoCar :: AICar where
  "demoCar = new_AICar 1 600 LANE_CENTERS 0.9 0.5"

definition demoPlayer :: player where
  "demoPlayer = \<lparr> player_x = 80, player_y = 600, player_lane = 0 \<rparr>"

text \<open>
  The first car that \<open>_spawnAI\<close> of game.js creates, at \<open>y = -120\<close>, and the player of
  game.js at its start: \<open>y = CANVAS_H - 120 = 600\<close>, in the middle lane.
\<close>

definition spawnedCar :: AICar where
  "spawnedCar = new_AICar 1 (- 120) LANE_CENTERS 0.5 0.5"

definition startPlayer :: player where
  "startPlayer = \<lparr> player_x = 240, player_y = 600, player_lane = 1 \<rparr>"

text \<open>The same car 50 units behind that player, and with a lane change still cooling.\<close>

definition behindCar :: AICar where
  "behindCar = demoCar\<lparr> pos_y := 550 \<rparr>"

definition coolingCar :: AICar where
  "coolingCar = demoCar\<lparr> laneChangeCooldown := 0.5 \<rparr>"

text \<open>A sedan of the traffic, in the middle lane, in front of \<open>behindCar\<close>.\<close>

definition aheadObstacle :: obstacle where
  "aheadObstacle = \<lparr> obs_x = 240, obs_y = 500, obs_width = 32 \<rparr>"

text \<open>A peer that sits in the left lane and has committed to the middle lane.\<close>

definition transitCar :: AICar where
  "transitCar = (new_AICar 0 560 LANE_CENTERS 0.5 0.5)\<lparr> targetLane := 1 \<rparr>"

text \<open>
  Two sedans near \<open>demoCar\<close>: one 32 to the right of the centre of the middle lane, one
  in the middle lane with its \<open>y\<close> exactly at \<open>demoCar\<close>'s \<open>y + height\<close>.
\<close>

definition sideObstacle :: obstacle where
  "sideObstacle = \<lparr> obs_x = 272, obs_y = 560, obs_width = 32 \<rparr>"

definition edgeObstacle :: obstacle where
  "edgeObstacle = \<lparr> obs_x = 240, obs_y = 662, obs_width = 32 \<rparr>"

text \<open>A frame of game.js, a scroll, and a pass of the regulator.\<close>

definition demoOps :: "operation list" where
  "demoOps = [Update (1 / 60) 200 startPlayer [] [] 0.5 0.9, Scroll 3,
              Regulate startPlayer 200 0.2 0.1]"

section \<open>What the planners and a think cycle leave alone\<close>

lemmas demo_defs = demoCar_def demoPlayer_def spawnedCar_def startPlayer_def LANE_CENTERS_def
  new_AICar_def behindCar_def coolingCar_def aheadObstacle_def transitCar_def sideObstacle_def
  edgeObstacle_def laneCenterAt_def

text \<open>Each planner returns the car as it was, or the result of one lane-change commit.\<close>

lemma planner_cases:
  "dodge this c obstacles peers = c \<or> (\<exists>n. dodge this c obstacles peers = changeLane c n)"
  "planOvertake this c p peers = c \<or> (\<exists>n. planOvertake this c p peers = changeLane c n)"
  "planBlock this c p peers = c \<or> (\<exists>n. planBlock this c p peers = changeLane c n)"
  by (auto simp: dodge_def planOvertake_def planBlock_def Let_def split: list.splits)

lemma changeLane_effect:
  assumes "d = c \<or> (\<exists>n. d = changeLane c n)"
  shows "lane d = lane c" and "aggression d = aggression c"
    and "reactionTime d = reactionTime c" and "reactionTimer d = reactionTimer c"
    and "state d = state c" and "stateTimer d = stateTimer c"
    and "blockTimer d = blockTimer c" and "pos_y d = pos_y c"
    and "LANE_CHANGE_COOLDOWN d = LANE_CHANGE_COOLDOWN c"
    and "(targetLane d = targetLane c \<and> laneChangeCooldown d = laneChangeCooldown c) \<or>
         (lane_index (targetLane d) \<and> laneChangeCooldown d = LANE_CHANGE_COOLDOWN c)"
  using assms by (auto simp: changeLane_def lane_index_def split: if_splits)

lemmas dodge_effect = changeLane_effect [OF planner_cases(1)]
lemmas planOvertake_effect = changeLane_effect [OF planner_cases(2)]
lemmas planBlock_effect = changeLane_effect [OF planner_cases(3)]

lemma think_fields:
  "lane (think this c p obstacles peers) = lane c"
  "aggression (think this c p obstacles peers) = aggression c"
  "reactionTime (think this c p obstacles peers) = reactionTime c"
  "LANE_CHANGE_COOLDOWN (think this c p obstacles peers) = LANE_CHANGE_COOLDOWN c"
  by (simp_all add: think_def Let_def thinkDefault_def
        dodge_effect(1,2,3,9) planOvertake_effect(1,2,3,9) planBlock_effect(1,2,3,9))

text \<open>
  A think cycle either keeps the target lane and the cooldown, or commits a lane in range
  and starts the cooldown at \<open>LANE_CHANGE_COOLDOWN\<close>.
\<close>

lemma think_target:
  "(targetLane (think this c p obstacles peers) = targetLane c \<and>
    laneChangeCooldown (think this c p obstacles peers) = laneChangeCooldown c) \<or>
   (lane_index (targetLane (think this c p obstacles peers)) \<and>
    laneChangeCooldown (think this c p obstacles peers) = LANE_CHANGE_COOLDOWN c)"
  using dodge_effect(10) [of this
          "c\<lparr> reactionTimer := reactionTime c, state := DODGE, stateTimer := 1.2 \<rparr>" obstacles peers]
        planBlock_effect(10) [of this
          "c\<lparr> reactionTimer := reactionTime c, state := BLOCK, stateTimer := 1.4, blockTimer := 3.0 \<rparr>"
          p peers]
        planOvertake_effect(10) [of this
          "c\<lparr> reactionTimer := reactionTime c, state := OVERTAKE, stateTimer := 1.0 \<rparr>" p peers]
  by (simp add: think_def Let_def thinkDefault_def)

text \<open>The same for the other steps of \<open>update\<close>.\<close>

lemma applyMovement_fields:
  "aggression (applyMovement c dt gameSpeed) = aggression c"
  "reactionTime (applyMovement c dt gameSpeed) = reactionTime c"
  "targetLane (applyMovement c dt gameSpeed) = targetLane c"
  "laneChangeCooldown (applyMovement c dt gameSpeed) = laneChangeCooldown c"
  "LANE_CHANGE_COOLDOWN (applyMovement c dt gameSpeed) = LANE_CHANGE_COOLDOWN c"
  "lane (applyMovement c dt gameSpeed) = lane c \<or>
   lane (applyMovement c dt gameSpeed) = targetLane c"
  by (simp_all add: applyMovement_def Let_def split: option.splits)

lemma updateRubberBand_fields:
  "aggression (updateRubberBand c p gameSpeed r1 r2) = aggression c"
  "reactionTime (updateRubberBand c p gameSpeed r1 r2) = reactionTime c"
  "reactionTimer (updateRubberBand c p gameSpeed r1 r2) = reactionTimer c"
  "laneChangeCooldown (updateRubberBand c p gameSpeed r1 r2) = laneChangeCooldown c"
  "LANE_CHANGE_COOLDOWN (updateRubberBand c p gameSpeed r1 r2) = LANE_CHANGE_COOLDOWN c"
  by (simp_all add: updateRubberBand_def respawnAbove_def Let_def)

lemma tickTimers_fields:
  "aggression (tickTimers c dt) = aggression c"
  "reactionTime (tickTimers c dt) = reactionTime c"
  "lane (tickTimers c dt) = lane c"
  "targetLane (tickTimers c dt) = targetLane c"
  "LANE_CHANGE_COOLDOWN (tickTimers c dt) = LANE_CHANGE_COOLDOWN c"
  by (simp_all add: tickTimers_def Let_def)

lemma difficultyScaling_fields:
  "aggression (difficultyScaling c gameSpeed) = aggression c"
  "reactionTime (difficultyScaling c gameSpeed) =
     max 0 (reactionTime c * (1 - speedT gameSpeed * 0.3))"
  "lane (difficultyScaling c gameSpeed) = lane c"
  "targetLane (difficultyScaling c gameSpeed) = targetLane c"
  "LANE_CHANGE_COOLDOWN (difficultyScaling c gameSpeed) = max 0.8 (1.5 - speedT gameSpeed * 0.5)"
  by (simp_all add: difficultyScaling_def)

lemma reactionGate_fields:
  "lane (reactionGate this c dt p obstacles peers) = lane c"
  "aggression (reactionGate this c dt p obstacles peers) = aggression c"
  "reactionTime (reactionGate this c dt p obstacles peers) = reactionTime c"
  "LANE_CHANGE_COOLDOWN (reactionGate this c dt p obstacles peers) = LANE_CHANGE_COOLDOWN c"
  by (simp_all add: reactionGate_def think_fields)

lemma reactionGate_target:
  "(targetLane (reactionGate this c dt p obstacles peers) = targetLane c \<and>
    laneChangeCooldown (reactionGate this c dt p obstacles peers) = laneChangeCooldown c) \<or>
   (lane_index (targetLane (reactionGate this c dt p obstacles peers)) \<and>
    laneChangeCooldown (reactionGate this c dt p obstacles peers) = LANE_CHANGE_COOLDOWN c)"
  using think_target [of this c p obstacles peers] by (simp add: reactionGate_def)


lemma speedT_le_1: "speedT gameSpeed \<le> 1"
  by (simp add: speedT_def)

text \<open>\<open>Math.floor(Math.random() * 3)\<close> is a lane index.\<close>

lemma floor_draw_lane:
  assumes "is_draw r"
  shows "lane_index \<lfloor>r * 3\<rfloor>"
proof -
  have "0 \<le> \<lfloor>r * 3\<rfloor>" using assms by (simp add: is_draw_def)
  moreover have "\<lfloor>r * 3\<rfloor> < 3" using assms by (simp add: is_draw_def floor_less_iff)
  ultimately show ?thesis unfolding lane_index_def by linarith
qed

text \<open>One frame of \<open>demoCar\<close>: the block planner commits the player's lane.\<close>

lemma demo_update:
  "targetLane (update 0 demoCar (1 / 60) g demoPlayer [] [] 0 0) = 0 \<and>
   targetLane (updateRubberBand (tickTimers (difficultyScaling demoCar g) (1 / 60))
                 demoPlayer g 0 0) = 1"
  by (simp add: update_def applyMovement_fields reactionGate_def think_def Let_def
        scanObstacle_def planBlock_def laneOccupied_def changeLane_def
        updateRubberBand_def tickTimers_def difficultyScaling_def demo_defs)

section \<open>Lane occupancy\<close>

text \<open>
  C5. The occupancy query answers occupied for lane \<open>l\<close> exactly when some peer other than
  the car itself is vertically closer than 80 and either is horizontally closer than 44
  to the centre of lane \<open>l\<close> or has \<open>l\<close> as its target lane. In particular a peer in
  transit whose target lane is \<open>l\<close> occupies \<open>l\<close> wherever its \<open>x\<close> is.
\<close>

theorem laneOccupied_iff:
  "(laneOccupied this c l peers \<longleftrightarrow>
      (\<exists>(r, q) \<in> set peers. r \<noteq> this \<and> \<bar>pos_y q - pos_y c\<bar> < 80 \<and>
         ((\<exists>lx qx. laneCenterAt (laneCenters c) l = Some lx \<and> pos_x q = Some qx \<and>
                   \<bar>qx - lx\<bar> < 44) \<or>
          targetLane q = l))) \<and>
   (\<forall>(r, q) \<in> set peers. r \<noteq> this \<and> \<bar>pos_y q - pos_y c\<bar> < 80 \<and> targetLane q = l \<longrightarrow>
      laneOccupied this c l peers)"
proof -
  have near: "abs_diff_lt a b t \<longleftrightarrow> (\<exists>lx qx. b = Some lx \<and> a = Some qx \<and> \<bar>qx - lx\<bar> < t)"
    for a b t
    by (cases a; cases b) auto
  show ?thesis
    unfolding laneOccupied_def Let_def list_ex_iff near by fastforce
qed

text \<open>
  The scenario of the specification: peer A has lane 0 and target lane 1, its \<open>x\<close> still
  at the centre of lane 0; B, 40 units away vertically, asks about lane 1.
\<close>

theorem laneOccupied_iff_witness:
  "laneOccupied 1 demoCar 1 [(0, transitCar), (1, demoCar)] \<and>
   lane transitCar = 0 \<and> targetLane transitCar = 1 \<and> pos_x transitCar = Some 80 \<and>
   laneCenterAt (laneCenters demoCar) 1 = Some 240 \<and>
   \<not> laneOccupied 1 demoCar 2 [(0, transitCar), (1, demoCar)] \<and>
   \<not> laneOccupied 1 demoCar 1 [(1, demoCar)]"
  using laneOccupied_iff [of 1 demoCar 1 "[(0, transitCar), (1, demoCar)]"]
        laneOccupied_iff [of 1 demoCar 2 "[(0, transitCar), (1, demoCar)]"]
        laneOccupied_iff [of 1 demoCar 1 "[(1, demoCar)]"]
  by (simp add: demo_defs)

section \<open>The lane-change cooldown\<close>

text \<open>
  C6. While \<open>laneChangeCooldown\<close> is positive, none of the three planners (dodge,
  overtake, block) changes the target lane, and neither does a whole think cycle,
  whichever transition it takes.
\<close>

theorem planners_respect_cooldown:
  assumes "laneChangeCooldown c > 0"
  shows "targetLane (dodge this c obstacles peers) = targetLane c \<and>
         targetLane (planOvertake this c p peers) = targetLane c \<and>
         targetLane (planBlock this c p peers) = targetLane c \<and>
         targetLane (think this c p obstacles peers) = targetLane c"
  using assms
  by (simp add: dodge_def planOvertake_def planBlock_def think_def thinkDefault_def Let_def)

text \<open>The last conjunct: without the cooldown the block planner does move the target.\<close>

theorem planners_respect_cooldown_witness:
  "laneChangeCooldown coolingCar > 0 \<and>
   targetLane (dodge 0 coolingCar [aheadObstacle] []) = 1 \<and>
   targetLane (planOvertake 0 coolingCar startPlayer []) = 1 \<and>
   targetLane (planBlock 0 coolingCar demoPlayer []) = 1 \<and>
   targetLane (think 0 coolingCar demoPlayer [] []) = 1 \<and>
   targetLane (planBlock 0 demoCar demoPlayer []) = 0"
proof -
  have cool: "laneChangeCooldown coolingCar > 0" by (simp add: demo_defs)
  have free: "targetLane (planBlock 0 demoCar demoPlayer []) = 0"
    by (simp add: planBlock_def laneOccupied_def changeLane_def demo_defs)
  have "targetLane coolingCar = 1" by (simp add: demo_defs)
  with planners_respect_cooldown [OF cool, of 0 "[aheadObstacle]" "[]" startPlayer]
       planners_respect_cooldown [OF cool, of 0 "[]" "[]" demoPlayer] cool free
  show ?thesis by simp
qed

text \<open>
  C10. Committing a lane equal to the current target lane, or an index outside 0, 1, 2,
  changes nothing: the car is returned as it was, so the target lane keeps its value and
  the cooldown is not restarted. A different lane in range becomes the target lane and
  restarts the cooldown; and the cooldown changes only when the target lane changes to a
  lane in range.
\<close>

theorem changeLane_noop_or_commit:
  "((newLane = targetLane c \<or> newLane \<notin> {0, 1, 2}) \<longrightarrow> changeLane c newLane = c) \<and>
   ((newLane \<noteq> targetLane c \<and> newLane \<in> {0, 1, 2}) \<longrightarrow>
      targetLane (changeLane c newLane) = newLane \<and>
      laneChangeCooldown (changeLane c newLane) = LANE_CHANGE_COOLDOWN c) \<and>
   (laneChangeCooldown (changeLane c newLane) \<noteq> laneChangeCooldown c \<longrightarrow>
      targetLane (changeLane c newLane) \<noteq> targetLane c \<and>
      targetLane (changeLane c newLane) \<in> {0, 1, 2})"
  by (auto simp: changeLane_def)

theorem changeLane_noop_or_commit_witness:
  "changeLane demoCar 1 = demoCar \<and> changeLane demoCar 3 = demoCar \<and>
   changeLane demoCar (- 1) = demoCar \<and>
   targetLane (changeLane demoCar 2) = 2 \<and>
   laneChangeCooldown (changeLane demoCar 2) = 0.75 \<and>
   laneChangeCooldown demoCar = 0"
  using changeLane_noop_or_commit [of 1 demoCar] changeLane_noop_or_commit [of 3 demoCar]
    changeLane_noop_or_commit [of "- 1" demoCar] changeLane_noop_or_commit [of 2 demoCar]
  by (simp add: demo_defs)

section \<open>Priorities of the think cycle\<close>

text \<open>
  C9. When the scan of the car's own lane reports a hazard, the car is not already in
  DODGE, and the car is also more than 40 behind the player (the catch-up condition), a
  think cycle puts it in DODGE, with a state timer of 1.2, and not in ACCELERATE.
\<close>

theorem think_dodge_before_accelerate:
  assumes "scanObstacle c obstacles" and "state c \<noteq> DODGE" and "pos_y c - player_y p < - 40"
  shows "state (think this c p obstacles peers) = DODGE \<and>
         state (think this c p obstacles peers) \<noteq> ACCELERATE \<and>
         stateTimer (think this c p obstacles peers) = 1.2"
proof -
  let ?c = "c\<lparr> reactionTimer := reactionTime c \<rparr>"
  have scan: "scanObstacle ?c obstacles" using assms(1) by (simp add: scanObstacle_def)
  have "think this c p obstacles peers =
          dodge this (?c\<lparr> state := DODGE, stateTimer := 1.2 \<rparr>) obstacles peers"
    using scan assms(2) by (simp add: think_def Let_def)
  then show ?thesis by (simp add: dodge_effect(5,6))
qed

text \<open>The last conjunct: the same car without the obstacle does accelerate.\<close>

theorem think_dodge_before_accelerate_witness:
  "scanObstacle behindCar [aheadObstacle] \<and> state behindCar = CRUISE \<and>
   pos_y behindCar - player_y demoPlayer < - 40 \<and>
   state (think 0 behindCar demoPlayer [aheadObstacle] []) = DODGE \<and>
   state (think 0 behindCar demoPlayer [] []) = ACCELERATE"
proof -
  have scan: "scanObstacle behindCar [aheadObstacle]"
    by (simp add: scanObstacle_def demo_defs)
  have st: "state behindCar \<noteq> DODGE" and st': "state behindCar = CRUISE"
    by (simp_all add: demo_defs)
  have behind: "pos_y behindCar - player_y demoPlayer < - 40" by (simp add: demo_defs)
  have acc: "state (think 0 behindCar demoPlayer [] []) = ACCELERATE"
    by (simp add: think_def scanObstacle_def demo_defs)
  from think_dodge_before_accelerate [OF scan st behind, of 0 "[]"] scan st' behind acc
  show ?thesis by simp
qed

text \<open>
  C8. In a think cycle that neither the hazard rule nor the catch-up rule takes first (no
  hazard at the car's position, or the car already in DODGE; and the car not more than 40
  behind the player), with the player within 140 vertical units: a car with aggression
  0.90, not in BLOCK and with the block cooldown at 0, goes to BLOCK with a state timer of
  1.4 and the block cooldown reset to 3.0; the otherwise identical car with aggression
  0.70, not in OVERTAKE, goes to OVERTAKE with a state timer of 1.0.
\<close>

theorem think_aggression_thresholds:
  assumes "\<not> (scanObstacle c obstacles \<and> state c \<noteq> DODGE)"
    and "- 40 \<le> pos_y c - player_y p"
    and "\<bar>pos_y c - player_y p\<bar> < 140"
  shows "(state c \<noteq> BLOCK \<and> blockTimer c = 0 \<longrightarrow>
            state (think this (c\<lparr> aggression := 0.9 \<rparr>) p obstacles peers) = BLOCK \<and>
            stateTimer (think this (c\<lparr> aggression := 0.9 \<rparr>) p obstacles peers) = 1.4 \<and>
            blockTimer (think this (c\<lparr> aggression := 0.9 \<rparr>) p obstacles peers) = 3.0) \<and>
         (state c \<noteq> OVERTAKE \<longrightarrow>
            state (think this (c\<lparr> aggression := 0.7 \<rparr>) p obstacles peers) = OVERTAKE \<and>
            stateTimer (think this (c\<lparr> aggression := 0.7 \<rparr>) p obstacles peers) = 1.0)"
proof -
  have scan: "scanObstacle (c\<lparr> aggression := a, reactionTimer := t \<rparr>) obstacles =
               scanObstacle c obstacles" for a t
    by (simp add: scanObstacle_def)
  have block: "think this (c\<lparr> aggression := 0.9 \<rparr>) p obstacles peers =
        planBlock this (c\<lparr> aggression := 0.9, reactionTimer := reactionTime c, state := BLOCK,
                            stateTimer := 1.4, blockTimer := 3.0 \<rparr>) p peers"
    if "state c \<noteq> BLOCK" "blockTimer c = 0"
    using that assms by (auto simp: think_def Let_def scan)
  have overtake: "think this (c\<lparr> aggression := 0.7 \<rparr>) p obstacles peers =
        planOvertake this (c\<lparr> aggression := 0.7, reactionTimer := reactionTime c,
                               state := OVERTAKE, stateTimer := 1.0 \<rparr>) p peers"
    if "state c \<noteq> OVERTAKE"
    using that assms by (auto simp: think_def Let_def scan)
  show ?thesis
    using block overtake by (simp add: planBlock_effect(5,6,7) planOvertake_effect(5,6))
qed

theorem think_aggression_thresholds_witness:
  "\<not> scanObstacle demoCar [] \<and> - 40 \<le> pos_y demoCar - player_y demoPlayer \<and>
   \<bar>pos_y demoCar - player_y demoPlayer\<bar> < 140 \<and>
   state demoCar = CRUISE \<and> blockTimer demoCar = 0 \<and>
   state (think 0 (demoCar\<lparr> aggression := 0.9 \<rparr>) demoPlayer [] []) = BLOCK \<and>
   stateTimer (think 0 (demoCar\<lparr> aggression := 0.9 \<rparr>) demoPlayer [] []) = 1.4 \<and>
   blockTimer (think 0 (demoCar\<lparr> aggression := 0.9 \<rparr>) demoPlayer [] []) = 3.0 \<and>
   state (think 0 (demoCar\<lparr> aggression := 0.7 \<rparr>) demoPlayer [] []) = OVERTAKE \<and>
   stateTimer (think 0 (demoCar\<lparr> aggression := 0.7 \<rparr>) demoPlayer [] []) = 1.0"
proof -
  have a: "\<not> (scanObstacle demoCar [] \<and> state demoCar \<noteq> DODGE)"
    by (simp add: scanObstacle_def)
  have b: "- 40 \<le> pos_y demoCar - player_y demoPlayer" by (simp add: demo_defs)
  have c: "\<bar>pos_y demoCar - player_y demoPlayer\<bar> < 140" by (simp add: demo_defs)
  have d: "state demoCar = CRUISE" "blockTimer demoCar = 0" "\<not> scanObstacle demoCar []"
    by (simp_all add: demo_defs scanObstacle_def)
  from think_aggression_thresholds [OF a b c, of 0 "[]"] b c d
  show ?thesis by simp
qed

text \<open>
  Without the two provisos the transitions are not taken: a car 50 behind the player
  accelerates, and a car with a hazard at its position dodges, whatever the aggression.
\<close>

theorem think_aggression_preempted:
  "\<bar>pos_y behindCar - player_y demoPlayer\<bar> < 140 \<and>
   state behindCar = CRUISE \<and> blockTimer behindCar = 0 \<and>
   state (think 0 (behindCar\<lparr> aggression := 0.9 \<rparr>) demoPlayer [] []) = ACCELERATE \<and>
   state (think 0 (behindCar\<lparr> aggression := 0.7 \<rparr>) demoPlayer [] []) = ACCELERATE \<and>
   \<bar>pos_y demoCar - player_y demoPlayer\<bar> < 140 \<and>
   state demoCar = CRUISE \<and> blockTimer demoCar = 0 \<and>
   state (think 0 (demoCar\<lparr> aggression := 0.9 \<rparr>) demoPlayer [sideObstacle] []) = DODGE \<and>
   state (think 0 (demoCar\<lparr> aggression := 0.7 \<rparr>) demoPlayer [sideObstacle] []) = DODGE"
  by (simp add: think_def scanObstacle_def dodge_effect(5) demo_defs sideObstacle_def)

section \<open>The hazard scans\<close>

text \<open>
  C2. The scan of lane \<open>l\<close> in the dodge planner reports the lane blocked exactly when
  some obstacle is horizontally closer to the centre of lane \<open>l\<close> than
  \<open>width * 0.5 + obstacle width * 0.4\<close> and its \<open>y\<close> lies strictly between
  \<open>y - lookAhead\<close> and \<open>y + height\<close>. The scan of the car's own position reports a hazard
  exactly when some obstacle is horizontally closer to the car's \<open>x\<close> than
  \<open>width * 0.6 + obstacle width * 0.4\<close>, with the same strict bounds on its \<open>y\<close>.
\<close>

theorem scans_iff:
  "(hasObstacle c obstacles l \<longleftrightarrow>
      (\<exists>ob \<in> set obstacles. \<exists>lx. laneCenterAt (laneCenters c) l = Some lx \<and>
         \<bar>obs_x ob - lx\<bar> < width c * 0.5 + obs_width ob * 0.4 \<and>
         pos_y c - lookAhead c < obs_y ob \<and> obs_y ob < pos_y c + height c)) \<and>
   (scanObstacle c obstacles \<longleftrightarrow>
      (\<exists>ob \<in> set obstacles. \<exists>x0. pos_x c = Some x0 \<and>
         \<bar>obs_x ob - x0\<bar> < width c * 0.6 + obs_width ob * 0.4 \<and>
         pos_y c - lookAhead c < obs_y ob \<and> obs_y ob < pos_y c + height c))"
proof -
  have near: "abs_diff_lt (Some a) b t \<longleftrightarrow> (\<exists>lx. b = Some lx \<and> \<bar>a - lx\<bar> < t)" for a b t
    by (cases b) auto
  show ?thesis
    unfolding hasObstacle_def scanObstacle_def Let_def list_ex_iff near by blast
qed

theorem scans_iff_witness:
  "hasObstacle demoCar [aheadObstacle] 1 \<and> \<not> hasObstacle demoCar [aheadObstacle] 0 \<and>
   \<not> hasObstacle demoCar [aheadObstacle] 3 \<and>
   scanObstacle demoCar [aheadObstacle] \<and> \<not> scanObstacle demoCar [edgeObstacle]"
  using scans_iff [of demoCar "[aheadObstacle]" 1] scans_iff [of demoCar "[aheadObstacle]" 0]
    scans_iff [of demoCar "[aheadObstacle]" 3] scans_iff [of demoCar "[edgeObstacle]" 1]
  by (simp add: demo_defs edgeObstacle_def)

text \<open>
  Against the specification's wording: an obstacle exactly at \<open>y + height\<close> is inside the
  closed interval but not reported by the lane scan, and an obstacle 32 from the car,
  which sits at the centre of its own lane, is reported by the scan of the car's position
  although 32 is not below \<open>36 * 0.5 + 32 * 0.4\<close>.
\<close>

theorem scans_differ_from_spec:
  "blocked_spec demoCar [edgeObstacle] 1 \<and> \<not> hasObstacle demoCar [edgeObstacle] 1 \<and>
   obs_y edgeObstacle = pos_y demoCar + height demoCar \<and>
   lane demoCar = 1 \<and> pos_x demoCar = laneCenterAt (laneCenters demoCar) 1 \<and>
   scanObstacle demoCar [sideObstacle] \<and> \<not> blocked_spec demoCar [sideObstacle] (lane demoCar)"
  by (simp add: blocked_spec_def hasObstacle_def scanObstacle_def demo_defs
        edgeObstacle_def sideObstacle_def)

section \<open>Personality\<close>




section \<open>The committed cooldown\<close>

text \<open>
  C4. When the think cycle of an update commits a lane change (the target lane after the
  update differs from the target lane the regulator left), the cooldown after the update
  is \<open>max 0.8 (1.5 - speedT * 0.5)\<close>, which is \<open>1.5 - speedT * 0.5\<close> and at least 1: it is
  1.5 at a game speed of 200 and 1 from a game speed of 600 on.
\<close>

theorem committed_cooldown_value:
  assumes "targetLane (update this c dt gameSpeed p obstacles peers r1 r2) \<noteq>
           targetLane (updateRubberBand (tickTimers (difficultyScaling c gameSpeed) dt)
                         p gameSpeed r1 r2)"
  shows "laneChangeCooldown (update this c dt gameSpeed p obstacles peers r1 r2) =
           max 0.8 (1.5 - speedT gameSpeed * 0.5) \<and>
         laneChangeCooldown (update this c dt gameSpeed p obstacles peers r1 r2) =
           1.5 - speedT gameSpeed * 0.5 \<and>
         1 \<le> laneChangeCooldown (update this c dt gameSpeed p obstacles peers r1 r2) \<and>
         (gameSpeed = 200 \<longrightarrow>
            laneChangeCooldown (update this c dt gameSpeed p obstacles peers r1 r2) = 1.5) \<and>
         (600 \<le> gameSpeed \<longrightarrow>
            laneChangeCooldown (update this c dt gameSpeed p obstacles peers r1 r2) = 1)"
proof -
  let ?c4 = "updateRubberBand (tickTimers (difficultyScaling c gameSpeed) dt) p gameSpeed r1 r2"
  let ?c5 = "reactionGate this ?c4 dt p obstacles peers"
  have upd: "update this c dt gameSpeed p obstacles peers r1 r2 = applyMovement ?c5 dt gameSpeed"
    by (simp add: update_def)
  have "targetLane ?c5 \<noteq> targetLane ?c4"
    using assms by (simp add: upd applyMovement_fields)
  with reactionGate_target [of this ?c4 dt p obstacles peers]
  have "laneChangeCooldown ?c5 = LANE_CHANGE_COOLDOWN ?c4" by auto
  also have "\<dots> = max 0.8 (1.5 - speedT gameSpeed * 0.5)"
    by (simp add: updateRubberBand_fields tickTimers_fields difficultyScaling_fields)
  finally have v: "laneChangeCooldown (update this c dt gameSpeed p obstacles peers r1 r2) =
      max 0.8 (1.5 - speedT gameSpeed * 0.5)"
    by (simp add: upd applyMovement_fields)
  have m: "max 0.8 (1.5 - speedT gameSpeed * 0.5) = 1.5 - speedT gameSpeed * 0.5"
    using speedT_le_1 [of gameSpeed] by (simp add: max_def)
  have e: "laneChangeCooldown (update this c dt gameSpeed p obstacles peers r1 r2) =
      1.5 - speedT gameSpeed * 0.5"
    using v m by simp
  have lo: "1 \<le> laneChangeCooldown (update this c dt gameSpeed p obstacles peers r1 r2)"
    using speedT_le_1 [of gameSpeed] e by simp
  have slow: "laneChangeCooldown (update this c dt gameSpeed p obstacles peers r1 r2) = 1.5"
    if "gameSpeed = 200"
  proof -
    have "speedT gameSpeed = 0" using that by (simp add: speedT_def)
    with e show ?thesis by simp
  qed
  have fast: "laneChangeCooldown (update this c dt gameSpeed p obstacles peers r1 r2) = 1"
    if "600 \<le> gameSpeed"
  proof -
    have "speedT gameSpeed = 1" using that by (simp add: speedT_def min_def)
    with e show ?thesis by simp
  qed
  from v e lo slow fast show ?thesis by blast
qed

theorem committed_cooldown_value_witness:
  "targetLane (update 0 demoCar (1 / 60) 400 demoPlayer [] [] 0 0) = 0 \<and>
   targetLane (updateRubberBand (tickTimers (difficultyScaling demoCar 400) (1 / 60))
                 demoPlayer 400 0 0) = 1 \<and>
   laneChangeCooldown (update 0 demoCar (1 / 60) 400 demoPlayer [] [] 0 0) = 1.25 \<and>
   laneChangeCooldown (update 0 demoCar (1 / 60) 200 demoPlayer [] [] 0 0) = 1.5 \<and>
   laneChangeCooldown (update 0 demoCar (1 / 60) 650 demoPlayer [] [] 0 0) = 1"
proof -
  have t: "targetLane (update 0 demoCar (1 / 60) g demoPlayer [] [] 0 0) \<noteq>
           targetLane (updateRubberBand (tickTimers (difficultyScaling demoCar g) (1 / 60))
                 demoPlayer g 0 0)" for g
    using demo_update [of g] by simp
  from committed_cooldown_value [OF t [of 400]] committed_cooldown_value [OF t [of 200]]
    committed_cooldown_value [OF t [of 650]] demo_update [of 400]
  show ?thesis by (simp add: speedT_def)
qed

text \<open>At a game speed of 200 the committed cooldown is 1.5, not between 0.75 and 0.8.\<close>

theorem committed_cooldown_outside_range:
  "targetLane demoCar = 1 \<and>
   targetLane (update 0 demoCar (1 / 60) 200 demoPlayer [] [] 0 0) = 0 \<and>
   laneChangeCooldown (update 0 demoCar (1 / 60) 200 demoPlayer [] [] 0 0) = 1.5 \<and>
   \<not> (min 0.75 0.8 \<le> laneChangeCooldown (update 0 demoCar (1 / 60) 200 demoPlayer [] [] 0 0) \<and>
      laneChangeCooldown (update 0 demoCar (1 / 60) 200 demoPlayer [] [] 0 0) \<le> max 0.75 0.8)"
proof -
  have "laneChangeCooldown (update 0 demoCar (1 / 60) 200 demoPlayer [] [] 0 0) = 1.5"
    by (simp add: update_def applyMovement_fields reactionGate_def think_def Let_def
        scanObstacle_def planBlock_def laneOccupied_def changeLane_def speedT_def
        updateRubberBand_def tickTimers_def difficultyScaling_def demo_defs)
  moreover have "targetLane demoCar = 1" by (simp add: demo_defs)
  ultimately show ?thesis using demo_update [of 200] by simp
qed

section \<open>The rubber-band reset\<close>

text \<open>
  What the reset does for every car more than 80 below the player's \<open>y\<close>: the new \<open>y\<close> is
  between 740 and 1040 below the player's, the lane is a lane in range and the target
  lane equals it, the state is CRUISE, the flag is cleared and the multiplier is 1.
\<close>

lemma respawn_offset:
  assumes "pos_y c - player_y p < - 80" and "is_draw r1" and "is_draw r2"
  shows "- 1040 < pos_y (updateRubberBand c p gameSpeed r1 r2) - player_y p"
    and "pos_y (updateRubberBand c p gameSpeed r1 r2) - player_y p \<le> - 740"
    and "lane_index (lane (updateRubberBand c p gameSpeed r1 r2))"
    and "targetLane (updateRubberBand c p gameSpeed r1 r2) =
         lane (updateRubberBand c p gameSpeed r1 r2)"
    and "state (updateRubberBand c p gameSpeed r1 r2) = CRUISE"
    and "\<not> playerBehind (updateRubberBand c p gameSpeed r1 r2)"
    and "rubberBandMult (updateRubberBand c p gameSpeed r1 r2) = 1"
proof -
  show "lane_index (lane (updateRubberBand c p gameSpeed r1 r2))"
    using assms(1) floor_draw_lane [OF assms(3)]
    by (simp add: updateRubberBand_def respawnAbove_def Let_def)
  show "- 1040 < pos_y (updateRubberBand c p gameSpeed r1 r2) - player_y p"
    and "pos_y (updateRubberBand c p gameSpeed r1 r2) - player_y p \<le> - 740"
    and "targetLane (updateRubberBand c p gameSpeed r1 r2) =
         lane (updateRubberBand c p gameSpeed r1 r2)"
    and "state (updateRubberBand c p gameSpeed r1 r2) = CRUISE"
    and "\<not> playerBehind (updateRubberBand c p gameSpeed r1 r2)"
    and "rubberBandMult (updateRubberBand c p gameSpeed r1 r2) = 1"
    using assms by (simp_all add: updateRubberBand_def respawnAbove_def Let_def is_draw_def)
qed

text \<open>
  C1. The first car game.js spawns, with the player at the start position, has
  \<open>y - player.y = -720\<close>; after one pass of the regulator, with both draws 0.5, it has
  \<open>y - player.y = -890\<close>, which is not at least 0 (and is again below -80), while the
  state is CRUISE and the lane is the drawn lane 1.
\<close>

theorem respawn_leaves_negative_offset:
  "pos_y spawnedCar - player_y startPlayer = - 720 \<and>
   pos_y (updateRubberBand spawnedCar startPlayer 200 0.5 0.5) - player_y startPlayer = - 890 \<and>
   \<not> 0 \<le> pos_y (updateRubberBand spawnedCar startPlayer 200 0.5 0.5) - player_y startPlayer \<and>
   state (updateRubberBand spawnedCar startPlayer 200 0.5 0.5) = CRUISE \<and>
   lane (updateRubberBand spawnedCar startPlayer 200 0.5 0.5) = 1"
  by (simp add: updateRubberBand_def respawnAbove_def Let_def demo_defs)

section \<open>The lane bound\<close>

lemma updateRubberBand_lanes:
  assumes "is_draw r2" and "lane_index (lane c)" and "lane_index (targetLane c)"
  shows "lane_index (lane (updateRubberBand c p gameSpeed r1 r2))"
    and "lane_index (targetLane (updateRubberBand c p gameSpeed r1 r2))"
  using assms floor_draw_lane [OF assms(1)]
  by (simp_all add: updateRubberBand_def respawnAbove_def Let_def)

lemma update_lanes:
  assumes "is_draw r2" and "lane_index (lane c)" and "lane_index (targetLane c)"
  shows "lane_index (lane (update this c dt gameSpeed p obstacles peers r1 r2))"
    and "lane_index (targetLane (update this c dt gameSpeed p obstacles peers r1 r2))"
proof -
  let ?c3 = "tickTimers (difficultyScaling c gameSpeed) dt"
  let ?c4 = "updateRubberBand ?c3 p gameSpeed r1 r2"
  let ?c5 = "reactionGate this ?c4 dt p obstacles peers"
  have "lane_index (lane ?c3)" and "lane_index (targetLane ?c3)"
    using assms(2,3) by (simp_all add: tickTimers_fields difficultyScaling_fields)
  then have c4: "lane_index (lane ?c4)" "lane_index (targetLane ?c4)"
    using updateRubberBand_lanes [OF assms(1)] by blast+
  have l5: "lane_index (lane ?c5)"
    using c4(1) by (simp add: reactionGate_fields)
  have t5: "lane_index (targetLane ?c5)"
    using c4(2) reactionGate_target [of this ?c4 dt p obstacles peers] by auto
  show "lane_index (targetLane (update this c dt gameSpeed p obstacles peers r1 r2))"
    using t5 by (simp add: update_def applyMovement_fields)
  show "lane_index (lane (update this c dt gameSpeed p obstacles peers r1 r2))"
    using l5 t5 applyMovement_fields(6) [of ?c5 dt gameSpeed] by (auto simp: update_def)
qed

lemma apply_operation_lanes:
  assumes "draws_ok op" and "lane_index (lane c)" and "lane_index (targetLane c)"
  shows "lane_index (lane (apply_operation this c op)) \<and>
         lane_index (targetLane (apply_operation this c op))"
proof (cases op)
  case (Update dt gameSpeed p obstacles peers r1 r2)
  then show ?thesis using assms update_lanes by simp
next
  case (Scroll amount)
  then show ?thesis using assms by (simp add: scroll_def)
next
  case (Regulate p gameSpeed r1 r2)
  then show ?thesis using assms updateRubberBand_lanes by simp
qed

lemma run_lanes:
  assumes "list_all draws_ok ops" and "lane_index (lane c)" and "lane_index (targetLane c)"
  shows "lane_index (lane (run this c ops)) \<and> lane_index (targetLane (run this c ops))"
  using assms
proof (induction ops arbitrary: c)
  case Nil
  then show ?case by (simp add: run_def)
next
  case (Cons op ops)
  have step: "lane_index (lane (apply_operation this c op)) \<and>
              lane_index (targetLane (apply_operation this c op))"
    using Cons.prems apply_operation_lanes by simp
  have "run this c (op # ops) = run this (apply_operation this c op) ops"
    by (simp add: run_def)
  then show ?case using Cons.IH [of "apply_operation this c op"] Cons.prems(1) step by simp
qed

text \<open>
  C7. A car constructed with a lane in 0, 1, 2 has its lane and its target lane in
  0, 1, 2 after every sequence of update, scroll and regulator operations (whose draws of
  \<open>Math.random()\<close> are in \<open>[0, 1)\<close>).
\<close>

theorem lanes_stay_in_range:
  assumes "lane0 \<in> {0, 1, 2}" and "list_all draws_ok ops"
  shows "lane (run this (new_AICar lane0 y0 centers r_aggr r_react) ops) \<in> {0, 1, 2} \<and>
         targetLane (run this (new_AICar lane0 y0 centers r_aggr r_react) ops) \<in> {0, 1, 2}"
proof -
  have "lane_index (lane (new_AICar lane0 y0 centers r_aggr r_react))"
    and "lane_index (targetLane (new_AICar lane0 y0 centers r_aggr r_react))"
    using assms(1) by (auto simp: new_AICar_def lane_index_def)
  from run_lanes [OF assms(2) this] show ?thesis by (simp add: lane_index_def)
qed

lemma demoOps_run:
  "lane (run 0 spawnedCar demoOps) = 0 \<and> targetLane (run 0 spawnedCar demoOps) = 0 \<and>
   lane (run 0 spawnedCar (butlast demoOps)) = 2"
  by (simp add: demoOps_def run_def scroll_def update_def applyMovement_def reactionGate_def
        think_def Let_def scanObstacle_def updateRubberBand_def respawnAbove_def
        tickTimers_def difficultyScaling_def speedT_def demo_defs)

theorem lanes_stay_in_range_witness:
  "(1::int) \<in> {0, 1, 2} \<and> list_all draws_ok demoOps \<and>
   lane (run 0 spawnedCar demoOps) \<in> {0, 1, 2} \<and>
   targetLane (run 0 spawnedCar demoOps) \<in> {0, 1, 2} \<and>
   lane (run 0 spawnedCar demoOps) = 0 \<and>
   lane (run 0 spawnedCar (butlast demoOps)) = 2"
proof -
  have a: "(1::int) \<in> {0, 1, 2}" by simp
  have b: "list_all draws_ok demoOps" by (simp add: demoOps_def is_draw_def)
  from lanes_stay_in_range [OF a b, of 0 "- 120" LANE_CENTERS "0.5" "0.5"] a b demoOps_run
  show ?thesis unfolding spawnedCar_def by simp
qed

end
